theory Spec2Isabelle
  imports Complex_Main
begin

section \<open>SO-GAAL: the data model\<close>

text \<open>
  The embedding follows \<^verbatim>\<open>pyod/models/so_gaal.py\<close>. A training matrix is a list of rows
  of reals (numpy's float64 values are idealised as reals). The Keras networks are
  opaque: their parameters are values of a type \<open>'w\<close>, the slots of an optimizer
  values of a type \<open>'o\<close>, and every operation of the numeric library is a field of
  the record \<open>keras\<close> below, a parameter of the model.
\<close>

type_synonym matrix = "real list list"

datatype error =
    ValueError | NotFittedError | AttributeError | RuntimeError | ZeroDivisionError

datatype retval = Self | PyNone

datatype activation = Relu | Sigmoid

datatype initializer =
    Identity real \<comment> \<open>\<^verbatim>\<open>keras.initializers.Identity(gain)\<close>\<close>
  | VarianceScaling real \<comment> \<open>\<^verbatim>\<open>VarianceScaling(scale, mode='fan_in', distribution='normal', seed=None)\<close>\<close>

record dense =
  units :: nat
  input_dim :: "nat option"
  activation :: activation
  kernel_initializer :: initializer

record sgd =
  lr :: real
  decay :: real
  momentum :: real

text \<open>
  A Keras model object: the layers of its \<^verbatim>\<open>Sequential\<close>, the shape of its \<^verbatim>\<open>Input\<close>,
  its parameters, the optimizer it was compiled with (\<open>None\<close> before \<^verbatim>\<open>compile\<close>) and
  its \<^verbatim>\<open>trainable\<close> flag.
\<close>

record ('w, 'o) model =
  layers :: "dense list"
  input_shape :: nat
  weights :: 'w
  optimizer :: "(sgd \<times> 'o) option"
  trainable :: bool

text \<open>
  \<^verbatim>\<open>combine_model = Model(latent, discriminator(generator(latent)))\<close> owns no parameters:
  its layers are the generator and discriminator objects themselves. It is
  represented by what \<^verbatim>\<open>compile\<close> gives it.
\<close>

record 'o combined =
  cm_optimizer :: sgd
  cm_slots :: 'o

text \<open>
  The calls the code makes to its collaborators and to \<^verbatim>\<open>print\<close>, in order, each with
  its arguments.
\<close>

datatype event =
    Set_n_classes "int list option"
  | Print_epoch int int
  | Print_testing int int
  | Generator_predict matrix matrix \<comment> \<open>the noise given and the rows returned\<close>
  | Discriminator_train matrix "int list"
  | Combine_train matrix "int list"
  | Combine_evaluate matrix "int list"
  | Discriminator_predict matrix
  | Process_decision_scores

text \<open>
  The numeric library. \<open>gen_row\<close> and \<open>dis_row\<close> are the two networks as functions of
  one input row (a dense network treats the rows of a batch independently; the
  discriminator's last layer has one unit, so it yields one number per row).
  The combined model was built after \<^verbatim>\<open>discriminator.trainable = False\<close>, so a training
  step on it returns new generator parameters only. \<open>uniform_stream\<close> is the stream of
  numbers \<^verbatim>\<open>np.random.uniform(0, 1, ...)\<close> draws from.

  \<open>score_hook\<close> is the computation of the base class's score-processing hook (see
  \<open>process_decision_scores\<close> below): from the contamination and the scores to a
  threshold and the labels.
\<close>

record ('w, 'o) keras =
  initial_weights :: "dense list \<Rightarrow> 'w"
  initial_slots :: "sgd \<Rightarrow> 'o"
  gen_row :: "'w \<Rightarrow> real list \<Rightarrow> real list"
  dis_row :: "'w \<Rightarrow> real list \<Rightarrow> real"
  dis_train_on_batch :: "sgd \<Rightarrow> 'o \<Rightarrow> 'w \<Rightarrow> matrix \<Rightarrow> int list \<Rightarrow> 'w \<times> 'o \<times> real"
  cm_train_on_batch :: "sgd \<Rightarrow> 'o \<Rightarrow> 'w \<Rightarrow> 'w \<Rightarrow> matrix \<Rightarrow> int list \<Rightarrow> 'w \<times> 'o \<times> real"
  cm_evaluate :: "'w \<Rightarrow> 'w \<Rightarrow> matrix \<Rightarrow> int list \<Rightarrow> real"
  uniform_stream :: "nat \<Rightarrow> real"
  score_hook :: "real \<Rightarrow> matrix \<Rightarrow> real \<times> int list"

text \<open>
  The detector instance. An attribute that \<^verbatim>\<open>__init__\<close> does not set is \<open>None\<close> until
  \<^verbatim>\<open>fit\<close> assigns it. \<^verbatim>\<open>train_history\<close> is a \<^verbatim>\<open>defaultdict(list)\<close>: a total function
  whose value at a key never written is the empty list. The fields \<open>decision_scores\<close>,
  \<open>threshold\<close> and \<open>labels\<close> are the attributes \<^verbatim>\<open>decision_scores_\<close>, \<^verbatim>\<open>threshold_\<close>
  and \<^verbatim>\<open>labels_\<close> (a name cannot end with an underscore here); \<open>sg_decay\<close> and
  \<open>sg_momentum\<close> are \<^verbatim>\<open>decay\<close> and \<^verbatim>\<open>momentum\<close>.
\<close>

record ('w, 'o) so_gaal =
  contamination :: real
  stop_epochs :: int
  lr_d :: real
  lr_g :: real
  sg_decay :: real
  sg_momentum :: real
  train_history :: "(string \<Rightarrow> real list) option"
  discriminator :: "('w, 'o) model option"
  generator :: "('w, 'o) model option"
  combine_model :: "'o combined option"
  decision_scores :: "matrix option"
  threshold :: "real option"
  labels :: "int list option"

text \<open>
  What a run of \<^verbatim>\<open>fit\<close> reads and writes: the instance, the local variable \<^verbatim>\<open>stop\<close>,
  the position in the random stream, and the calls made so far.
\<close>

record ('w, 'o) frame =
  self :: "('w, 'o) so_gaal"
  stop :: int
  rng_pos :: nat
  trace :: "event list"

text \<open>The outcome of a statement inside a loop: go on, \<^verbatim>\<open>return\<close> a value, or raise.\<close>

datatype ('s, 'r) ctl = Continue 's | Return 'r 's | Raise error 's

section \<open>The network builders\<close>

definition math_sqrt :: "real \<Rightarrow> real" where
  "math_sqrt x = sqrt x"

definition math_ceil :: "real \<Rightarrow> int" where
  "math_ceil x = \<lceil>x\<rceil>"

definition SO_GAAL_init ::
  "int \<Rightarrow> real \<Rightarrow> real \<Rightarrow> real \<Rightarrow> real \<Rightarrow> real \<Rightarrow> ('w, 'o) so_gaal" where
  "SO_GAAL_init stop_epochs' lr_d' lr_g' decay' momentum' contamination' =
     \<lparr>contamination = contamination', stop_epochs = stop_epochs', lr_d = lr_d',
      lr_g = lr_g', sg_decay = decay', sg_momentum = momentum',
      train_history = None, discriminator = None, generator = None,
      combine_model = None, decision_scores = None, threshold = None,
      labels = None\<rparr>"

definition create_generator :: "('w, 'o) keras \<Rightarrow> nat \<Rightarrow> ('w, 'o) model" where
  "create_generator K latent_size =
     (let gen = [\<lparr>units = latent_size, input_dim = Some latent_size,
                   activation = Relu, kernel_initializer = Identity 1\<rparr>,
                 \<lparr>units = latent_size, input_dim = None,
                   activation = Relu, kernel_initializer = Identity 1\<rparr>]
      in \<lparr>layers = gen, input_shape = latent_size, weights = initial_weights K gen,
          optimizer = None, trainable = True\<rparr>)"

definition create_discriminator :: "('w, 'o) keras \<Rightarrow> nat \<Rightarrow> nat \<Rightarrow> ('w, 'o) model" where
  "create_discriminator K latent_size data_size =
     (let dis = [\<lparr>units = nat (math_ceil (math_sqrt (real data_size))),
                   input_dim = Some latent_size,
                   activation = Relu, kernel_initializer = VarianceScaling 1\<rparr>,
                 \<lparr>units = 1, input_dim = None,
                   activation = Sigmoid, kernel_initializer = VarianceScaling 1\<rparr>]
      in \<lparr>layers = dis, input_shape = latent_size, weights = initial_weights K dis,
          optimizer = None, trainable = True\<rparr>)"

section \<open>Python, numpy and scikit-learn primitives\<close>

text \<open>
  \<^verbatim>\<open>sklearn.utils.check_array\<close> with its default arguments: the input must be a
  two-dimensional numeric array with at least one sample and one feature (a real
  has no NaN or infinity to refuse). It returns the array.
\<close>

definition check_array :: "matrix \<Rightarrow> error + matrix" where
  "check_array X =
     (if X = [] then Inl ValueError
      else if length (hd X) = 0 then Inl ValueError
      else if (\<exists>r \<in> set X. length r \<noteq> length (hd X)) then Inl ValueError
      else Inr X)"

text \<open>\<^verbatim>\<open>xs[a:b]\<close> for non-negative \<open>a\<close> and \<open>b\<close>: the bounds are clipped to the list.\<close>

definition slice :: "'a list \<Rightarrow> nat \<Rightarrow> nat \<Rightarrow> 'a list" where
  "slice xs a b = take (b - a) (drop a xs)"

definition emit :: "event \<Rightarrow> ('w, 'o) frame \<Rightarrow> ('w, 'o) frame" where
  "emit e f = f\<lparr>trace := trace f @ [e]\<rparr>"

text \<open>
  \<^verbatim>\<open>np.random.uniform(0, 1, (rows, cols))\<close>: the next \<open>rows * cols\<close> numbers of the
  stream, row by row.
\<close>

definition np_random_uniform ::
  "('w, 'o) keras \<Rightarrow> nat \<Rightarrow> nat \<Rightarrow> ('w, 'o) frame \<Rightarrow> matrix \<times> ('w, 'o) frame" where
  "np_random_uniform K rows cols f =
     (map (\<lambda>r. map (\<lambda>c. uniform_stream K (rng_pos f + r * cols + c)) [0..<cols]) [0..<rows],
      f\<lparr>rng_pos := rng_pos f + rows * cols\<rparr>)"

text \<open>Reading an attribute that was never assigned raises \<^verbatim>\<open>AttributeError\<close>.\<close>

definition getattr :: "'a option \<Rightarrow> 's \<Rightarrow> ('a \<Rightarrow> ('s, 'r) ctl) \<Rightarrow> ('s, 'r) ctl" where
  "getattr a s k = (case a of None \<Rightarrow> Raise AttributeError s | Some v \<Rightarrow> k v)"

text \<open>
  \<^verbatim>\<open>for x in xs: body\<close>. A \<^verbatim>\<open>return\<close> or an exception in the body ends the loop; the
  items left are not visited.
\<close>

fun for_loop :: "'a list \<Rightarrow> ('a \<Rightarrow> 's \<Rightarrow> ('s, 'r) ctl) \<Rightarrow> 's \<Rightarrow> ('s, 'r) ctl" where
  "for_loop [] body s = Continue s"
| "for_loop (x # xs) body s =
     (case body x s of
        Continue s' \<Rightarrow> for_loop xs body s'
      | Return r s' \<Rightarrow> Return r s'
      | Raise e s' \<Rightarrow> Raise e s')"

fun frame_of :: "('s, 'r) ctl \<Rightarrow> 's" where
  "frame_of (Continue s) = s"
| "frame_of (Return r s) = s"
| "frame_of (Raise e s) = s"

section \<open>Keras calls\<close>

definition model_compile :: "('w, 'o) keras \<Rightarrow> sgd \<Rightarrow> ('w, 'o) model \<Rightarrow> ('w, 'o) model" where
  "model_compile K opt m = m\<lparr>optimizer := Some (opt, initial_slots K opt)\<rparr>"

definition generator_predict :: "('w, 'o) keras \<Rightarrow> ('w, 'o) model \<Rightarrow> matrix \<Rightarrow> matrix" where
  "generator_predict K g noise = map (gen_row K (weights g)) noise"

text \<open>The discriminator's prediction has shape \<open>(n, 1)\<close>: one row, of one number, per input row.\<close>

definition discriminator_predict :: "('w, 'o) keras \<Rightarrow> ('w, 'o) model \<Rightarrow> matrix \<Rightarrow> matrix" where
  "discriminator_predict K d X = map (\<lambda>r. [dis_row K (weights d) r]) X"

text \<open>\<^verbatim>\<open>self.train_history[key].append(v)\<close>\<close>

definition history_append ::
  "string \<Rightarrow> real \<Rightarrow> ('w, 'o) frame \<Rightarrow> (('w, 'o) frame, retval) ctl" where
  "history_append key v f =
     getattr (train_history (self f)) f (\<lambda>h.
       Continue (f\<lparr>self := (self f)\<lparr>train_history := Some (h(key := h key @ [v]))\<rparr>\<rparr>))"

text \<open>
  \<^verbatim>\<open>self.discriminator.train_on_batch(x, y)\<close>: one optimizer step on the discriminator's
  own parameters; a model that was not compiled raises \<^verbatim>\<open>RuntimeError\<close>.
\<close>

definition discriminator_train_on_batch ::
  "('w, 'o) keras \<Rightarrow> matrix \<Rightarrow> int list \<Rightarrow> ('w, 'o) frame \<Rightarrow>
     (real \<Rightarrow> ('w, 'o) frame \<Rightarrow> (('w, 'o) frame, retval) ctl) \<Rightarrow> (('w, 'o) frame, retval) ctl" where
  "discriminator_train_on_batch K x y f k =
     getattr (discriminator (self f)) f (\<lambda>d.
       case optimizer d of
         None \<Rightarrow> Raise RuntimeError f
       | Some (opt, slots) \<Rightarrow>
           (case dis_train_on_batch K opt slots (weights d) x y of
              (w', slots', loss) \<Rightarrow>
                let f1 = emit (Discriminator_train x y) f
                in k loss (f1\<lparr>self := (self f1)\<lparr>discriminator :=
                     Some (d\<lparr>weights := w', optimizer := Some (opt, slots')\<rparr>)\<rparr>\<rparr>)))"

text \<open>
  \<^verbatim>\<open>self.combine_model.train_on_batch(noise, trick)\<close>: one optimizer step on the combined
  model. Its trainable parameters are the generator's, which the generator object
  shares; the discriminator inside it is frozen.
\<close>

definition combine_model_train_on_batch ::
  "('w, 'o) keras \<Rightarrow> matrix \<Rightarrow> int list \<Rightarrow> ('w, 'o) frame \<Rightarrow>
     (real \<Rightarrow> ('w, 'o) frame \<Rightarrow> (('w, 'o) frame, retval) ctl) \<Rightarrow> (('w, 'o) frame, retval) ctl" where
  "combine_model_train_on_batch K noise trick f k =
     getattr (combine_model (self f)) f (\<lambda>c.
     getattr (generator (self f)) f (\<lambda>g.
     getattr (discriminator (self f)) f (\<lambda>d.
       case cm_train_on_batch K (cm_optimizer c) (cm_slots c) (weights g) (weights d) noise trick of
         (w', slots', loss) \<Rightarrow>
           let f1 = emit (Combine_train noise trick) f
           in k loss (f1\<lparr>self := (self f1)\<lparr>generator := Some (g\<lparr>weights := w'\<rparr>),
                combine_model := Some (c\<lparr>cm_slots := slots'\<rparr>)\<rparr>\<rparr>))))"

text \<open>\<^verbatim>\<open>self.combine_model.evaluate(noise, trick)\<close>: the loss only; no parameter changes.\<close>

definition combine_model_evaluate ::
  "('w, 'o) keras \<Rightarrow> matrix \<Rightarrow> int list \<Rightarrow> ('w, 'o) frame \<Rightarrow>
     (real \<Rightarrow> ('w, 'o) frame \<Rightarrow> (('w, 'o) frame, retval) ctl) \<Rightarrow> (('w, 'o) frame, retval) ctl" where
  "combine_model_evaluate K noise trick f k =
     getattr (combine_model (self f)) f (\<lambda>c.
     getattr (generator (self f)) f (\<lambda>g.
     getattr (discriminator (self f)) f (\<lambda>d.
       let loss = cm_evaluate K (weights g) (weights d) noise trick
       in k loss (emit (Combine_evaluate noise trick) f))))"

section \<open>The hooks of the base class\<close>

text \<open>
  Modelled from the spec: \<^verbatim>\<open>BaseDetector._set_n_classes\<close> is not in the source file; the
  spec says only that the trainer calls it at the start of \<^verbatim>\<open>fit\<close>. The model records
  the call.
\<close>

definition set_n_classes :: "int list option \<Rightarrow> ('w, 'o) frame \<Rightarrow> ('w, 'o) frame" where
  "set_n_classes y f = emit (Set_n_classes y) f"

text \<open>
  Modelled from the spec: \<^verbatim>\<open>BaseDetector._process_decision_scores\<close> is not in the source
  file; it derives \<^verbatim>\<open>threshold_\<close> and \<^verbatim>\<open>labels_\<close> from \<^verbatim>\<open>decision_scores_\<close> and the
  configured contamination.
\<close>

definition process_decision_scores ::
  "('w, 'o) keras \<Rightarrow> ('w, 'o) frame \<Rightarrow> (('w, 'o) frame, retval) ctl" where
  "process_decision_scores K f =
     getattr (decision_scores (self f)) f (\<lambda>scores.
       case score_hook K (contamination (self f)) scores of
         (t, l) \<Rightarrow>
           let f1 = emit Process_decision_scores f
           in Continue (f1\<lparr>self := (self f1)\<lparr>threshold := Some t, labels := Some l\<rparr>\<rparr>))"

section \<open>fit\<close>

text \<open>
  The generator phase of a batch (the block under \<^verbatim>\<open># Train generator\<close>, lines 229 to
  237).
\<close>

definition train_generator ::
  "('w, 'o) keras \<Rightarrow> matrix \<Rightarrow> nat \<Rightarrow> ('w, 'o) frame \<Rightarrow> (('w, 'o) frame, retval) ctl" where
  "train_generator K noise noise_size f =
     (if stop f = 0 then
        let trick = replicate noise_size 1
        in combine_model_train_on_batch K noise trick f (\<lambda>generator_loss f1.
             history_append ''generator_loss'' generator_loss f1)
      else
        let trick = replicate noise_size 1
        in combine_model_evaluate K noise trick f (\<lambda>generator_loss f1.
             history_append ''generator_loss'' generator_loss f1))"

text \<open>The body of \<^verbatim>\<open>for index in range(num_batches)\<close> (lines 206 to 237).\<close>

definition batch_body ::
  "('w, 'o) keras \<Rightarrow> matrix \<Rightarrow> nat \<Rightarrow> nat \<Rightarrow> int \<Rightarrow> nat \<Rightarrow> ('w, 'o) frame \<Rightarrow>
     (('w, 'o) frame, retval) ctl" where
  "batch_body K X latent_size batch_size epoch index f0 =
     (let f1 = emit (Print_testing (epoch + 1) (int index + 1)) f0;
          noise_size = batch_size
      in case np_random_uniform K noise_size latent_size f1 of
        (noise, f2) \<Rightarrow>
          let data_batch = slice X (index * batch_size) ((index + 1) * batch_size)
          in getattr (generator (self f2)) f2 (\<lambda>g.
             let generated_data = generator_predict K g noise;
                 f3 = emit (Generator_predict noise generated_data) f2;
                 x = data_batch @ generated_data;
                 y = replicate batch_size 1 @ replicate noise_size 0
             in discriminator_train_on_batch K x y f3 (\<lambda>discriminator_loss f4.
                  case history_append ''discriminator_loss'' discriminator_loss f4 of
                    Continue f5 \<Rightarrow> train_generator K noise noise_size f5
                  | Return r f5 \<Rightarrow> Return r f5
                  | Raise e f5 \<Rightarrow> Raise e f5)))"

text \<open>
  The body of \<^verbatim>\<open>for epoch in range(epochs)\<close> (lines 201 to 246). \<^verbatim>\<open>int(data_size /
  batch_size)\<close> is a true division truncated; on the non-negative sizes here it is the
  integer quotient, and a zero divisor raises. The last statement of the body is
  \<^verbatim>\<open>return self\<close>.
\<close>

definition epoch_body ::
  "('w, 'o) keras \<Rightarrow> matrix \<Rightarrow> nat \<Rightarrow> nat \<Rightarrow> int \<Rightarrow> int \<Rightarrow> ('w, 'o) frame \<Rightarrow>
     (('w, 'o) frame, retval) ctl" where
  "epoch_body K X latent_size data_size epochs epoch f0 =
     (let f1 = emit (Print_epoch (epoch + 1) epochs) f0;
          batch_size = min 500 data_size
      in if batch_size = 0 then Raise ZeroDivisionError f1
         else
           let num_batches = data_size div batch_size
           in case for_loop [0..<num_batches]
                     (batch_body K X latent_size batch_size epoch) f1 of
                Continue f2 \<Rightarrow>
                  let f3 = (if epoch + 1 > stop_epochs (self f2) then f2\<lparr>stop := 1\<rparr> else f2)
                  in getattr (discriminator (self f3)) f3 (\<lambda>d.
                       let f4 = emit (Discriminator_predict X) f3;
                           f5 = f4\<lparr>self := (self f4)\<lparr>decision_scores :=
                                  Some (discriminator_predict K d X)\<rparr>\<rparr>
                       in case process_decision_scores K f5 of
                            Continue f6 \<Rightarrow> Return Self f6
                          | Return r f6 \<Rightarrow> Return r f6
                          | Raise e f6 \<Rightarrow> Raise e f6)
              | Return r f2 \<Rightarrow> Return r f2
              | Raise e f2 \<Rightarrow> Raise e f2)"

text \<open>
  \<^verbatim>\<open>fit(self, X, y=None)\<close>. The frame given holds the instance; its \<open>stop\<close> is
  overwritten by \<^verbatim>\<open>stop = 0\<close>. A loop that ends without \<^verbatim>\<open>return\<close> falls off the end of
  the function, which then returns \<^verbatim>\<open>None\<close>.
\<close>

definition fit ::
  "('w, 'o) keras \<Rightarrow> matrix \<Rightarrow> int list option \<Rightarrow> ('w, 'o) frame \<Rightarrow>
     (('w, 'o) frame, retval) ctl" where
  "fit K X0 y f0 =
     (case check_array X0 of
        Inl e \<Rightarrow> Raise e f0
      | Inr X \<Rightarrow>
          let f1 = set_n_classes y f0;
              latent_size = length (hd X);
              data_size = length X;
              f2 = f1\<lparr>stop := 0\<rparr>;
              epochs = stop_epochs (self f2) * 3;
              f3 = f2\<lparr>self := (self f2)\<lparr>train_history := Some (\<lambda>key. [])\<rparr>\<rparr>;
              dis = model_compile K
                      \<lparr>lr = lr_d (self f3), decay = sg_decay (self f3),
                       momentum = sg_momentum (self f3)\<rparr>
                      (create_discriminator K latent_size data_size);
              f4 = f3\<lparr>self := (self f3)\<lparr>discriminator := Some dis\<rparr>\<rparr>;
              f5 = f4\<lparr>self := (self f4)\<lparr>generator := Some (create_generator K latent_size)\<rparr>\<rparr>;
              f6 = f5\<lparr>self := (self f5)\<lparr>discriminator := Some (dis\<lparr>trainable := False\<rparr>)\<rparr>\<rparr>;
              f7 = f6\<lparr>self := (self f6)\<lparr>combine_model :=
                     Some \<lparr>cm_optimizer = \<lparr>lr = lr_g (self f6), decay = sg_decay (self f6),
                                            momentum = sg_momentum (self f6)\<rparr>,
                           cm_slots = initial_slots K \<lparr>lr = lr_g (self f6),
                                        decay = sg_decay (self f6),
                                        momentum = sg_momentum (self f6)\<rparr>\<rparr>\<rparr>\<rparr>
          in case for_loop [0..epochs - 1]
                    (epoch_body K X latent_size data_size epochs) f7 of
               Continue f8 \<Rightarrow> Return PyNone f8
             | Return r f8 \<Rightarrow> Return r f8
             | Raise e f8 \<Rightarrow> Raise e f8)"

section \<open>decision\_function\<close>

text \<open>\<^verbatim>\<open>check_is_fitted(self, ['discriminator'])\<close>: the attribute must exist.\<close>

definition check_is_fitted :: "('w, 'o) so_gaal \<Rightarrow> error + unit" where
  "check_is_fitted s = (if discriminator s = None then Inl NotFittedError else Inr ())"

definition decision_function ::
  "('w, 'o) keras \<Rightarrow> ('w, 'o) so_gaal \<Rightarrow> matrix \<Rightarrow> error + matrix" where
  "decision_function K s X0 =
     (case check_is_fitted s of
        Inl e \<Rightarrow> Inl e
      | Inr u \<Rightarrow>
          (case check_array X0 of
             Inl e \<Rightarrow> Inl e
           | Inr X \<Rightarrow>
               (case discriminator s of
                  None \<Rightarrow> Inl AttributeError
                | Some d \<Rightarrow> let pred_scores = discriminator_predict K d X in Inr pred_scores)))"

section \<open>Reading a run\<close>

text \<open>The calls made by one run of \<^verbatim>\<open>fit\<close>: what it appended to the trace.\<close>

definition fit_trace ::
  "('w, 'o) keras \<Rightarrow> matrix \<Rightarrow> int list option \<Rightarrow> ('w, 'o) frame \<Rightarrow> event list" where
  "fit_trace K X y f = drop (length (trace f)) (trace (frame_of (fit K X y f)))"

text \<open>The epoch numbers printed by \<^verbatim>\<open>print('Epoch {} of {}')\<close>.\<close>

definition epochs_printed :: "event list \<Rightarrow> (int \<times> int) list" where
  "epochs_printed tr =
     concat (map (\<lambda>ev. case ev of Print_epoch a b \<Rightarrow> [(a, b)] | _ \<Rightarrow> []) tr)"

text \<open>The (epoch, index) pairs printed at the head of each batch.\<close>

definition batches_printed :: "event list \<Rightarrow> (int \<times> int) list" where
  "batches_printed tr =
     concat (map (\<lambda>ev. case ev of Print_testing a b \<Rightarrow> [(a, b)] | _ \<Rightarrow> []) tr)"

text \<open>The outputs of \<^verbatim>\<open>self.generator.predict\<close>.\<close>

definition generated_batches :: "event list \<Rightarrow> matrix list" where
  "generated_batches tr =
     concat (map (\<lambda>ev. case ev of Generator_predict noise gen \<Rightarrow> [gen] | _ \<Rightarrow> []) tr)"

text \<open>The batches and label vectors given to \<^verbatim>\<open>self.discriminator.train_on_batch\<close>.\<close>

definition dis_batches :: "event list \<Rightarrow> (matrix \<times> int list) list" where
  "dis_batches tr =
     concat (map (\<lambda>ev. case ev of Discriminator_train x y \<Rightarrow> [(x, y)] | _ \<Rightarrow> []) tr)"

text \<open>
  The rows of \<open>X\<close> in each training batch: the batch without the rows that the
  generator returned for it (the \<open>i\<close>-th call of \<^verbatim>\<open>discriminator.train_on_batch\<close>
  follows the \<open>i\<close>-th call of \<^verbatim>\<open>generator.predict\<close>, whose rows are the end of the batch).
\<close>

definition data_batches :: "event list \<Rightarrow> matrix list" where
  "data_batches tr =
     map (\<lambda>((x, y), gen). take (length x - length gen) x)
       (zip (dis_batches tr) (generated_batches tr))"

text \<open>
  The generator phases: \<open>True\<close> for a training step on the combined model, \<open>False\<close> for
  an evaluation of its loss.
\<close>

definition generator_steps :: "event list \<Rightarrow> bool list" where
  "generator_steps tr =
     concat (map (\<lambda>ev. case ev of Combine_train n t \<Rightarrow> [True]
                           | Combine_evaluate n t \<Rightarrow> [False] | _ \<Rightarrow> []) tr)"

text \<open>The attributes the loops read have been assigned, and the discriminator is compiled.\<close>

definition ready :: "('w, 'o) frame \<Rightarrow> bool" where
  "ready f =
     (train_history (self f) \<noteq> None \<and> generator (self f) \<noteq> None \<and>
      combine_model (self f) \<noteq> None \<and>
      (case discriminator (self f) of None \<Rightarrow> False | Some d \<Rightarrow> optimizer d \<noteq> None))"

text \<open>
  The calls of a batch loop over the indices \<open>js\<close> in epoch \<open>e\<close>: four per batch, the
  training batch being the rows of the window followed by the generated rows.
\<close>

fun batch_trace ::
  "matrix \<Rightarrow> nat \<Rightarrow> int \<Rightarrow> bool \<Rightarrow> nat list \<Rightarrow> event list \<Rightarrow> bool" where
  "batch_trace X bs e frozen [] evs = (evs = [])"
| "batch_trace X bs e frozen (i # js)
     (Print_testing a b # Generator_predict noise gen # Discriminator_train x y # g # evs) =
     (a = e + 1 \<and> b = int i + 1 \<and> length noise = bs \<and> length gen = bs \<and>
      x = slice X (i * bs) ((i + 1) * bs) @ gen \<and>
      y = replicate bs 1 @ replicate bs 0 \<and>
      g = (if frozen then Combine_evaluate noise (replicate bs 1)
           else Combine_train noise (replicate bs 1)) \<and>
      batch_trace X bs e frozen js evs)"
| "batch_trace X bs e frozen (i # js) evs = False"

text \<open>A stand-in numeric library and a fresh detector, for the concrete instances below.\<close>

definition K0 :: "(nat, unit) keras" where
  "K0 = \<lparr>initial_weights = (\<lambda>ls. 0), initial_slots = (\<lambda>opt. ()),
          gen_row = (\<lambda>w r. r), dis_row = (\<lambda>w r. real w),
          dis_train_on_batch = (\<lambda>opt sl w x y. (w + 1, sl, 0)),
          cm_train_on_batch = (\<lambda>opt sl gw dw x y. (gw + 1, sl, 0)),
          cm_evaluate = (\<lambda>gw dw x y. 0),
          uniform_stream = (\<lambda>n. 0),
          score_hook = (\<lambda>c sc. (0, map (\<lambda>r. 0) sc))\<rparr>"

definition frame0 :: "int \<Rightarrow> (nat, unit) frame" where
  "frame0 se =
     \<lparr>self = SO_GAAL_init se (1 / 100) (1 / 10000) (1 / 1000000) (9 / 10) (1 / 10),
      stop = 0, rng_pos = 0, trace = []\<rparr>"


text \<open>A matrix of one feature whose rows are all different: row \<open>j\<close> holds the number \<open>j\<close>.\<close>

definition ramp :: "nat \<Rightarrow> matrix" where
  "ramp n = map (\<lambda>j. [real j]) [0..<n]"

section \<open>The width of the discriminator's hidden layer\<close>

lemma ceil_sqrt_unique:
  fixes n w :: nat
  assumes lo: "(w - 1) ^ 2 < n" and hi: "n \<le> w ^ 2"
  shows "nat (math_ceil (math_sqrt (real n))) = w"
proof -
  have wpos: "0 < w"
  proof (rule ccontr)
    assume "\<not> 0 < w"
    with hi lo show False by simp
  qed
  have "real ((w - 1) ^ 2) < real n"
    using lo by (simp only: of_nat_less_iff)
  then have "(real (w - 1))\<^sup>2 < real n" by simp
  then have l: "real (w - 1) < sqrt (real n)"
    by (rule real_less_rsqrt)
  have "real n \<le> real (w ^ 2)"
    using hi by (simp only: of_nat_le_iff)
  then have "real n \<le> (real w)\<^sup>2" by simp
  then have u: "sqrt (real n) \<le> real w"
    by (rule real_le_lsqrt[rotated 1]) simp
  have "\<lceil>sqrt (real n)\<rceil> = int w"
  proof (rule ceiling_unique)
    show "of_int (int w) - 1 < sqrt (real n)"
      using l wpos by (simp add: of_nat_diff)
    show "sqrt (real n) \<le> of_int (int w)"
      using u by simp
  qed
  then show ?thesis by (simp add: math_ceil_def math_sqrt_def)
qed

lemma ceil_sqrt_bounds:
  fixes n :: nat
  defines "w \<equiv> nat (math_ceil (math_sqrt (real n)))"
  shows "n \<le> w ^ 2" and "n = 0 \<or> (w - 1) ^ 2 < n"
proof -
  have c0: "0 \<le> \<lceil>sqrt (real n)\<rceil>"
    using ceiling_mono[of 0 "sqrt (real n)"] by simp
  have rw: "real w = of_int \<lceil>sqrt (real n)\<rceil>"
    using c0 by (simp add: w_def math_ceil_def math_sqrt_def)
  have "sqrt (real n) \<le> real w"
    unfolding rw by (rule le_of_int_ceiling)
  then have "(sqrt (real n))\<^sup>2 \<le> (real w)\<^sup>2"
    by (intro power_mono) simp_all
  then have "real n \<le> real (w ^ 2)" by simp
  then show "n \<le> w ^ 2" by (simp only: of_nat_le_iff)
  show "n = 0 \<or> (w - 1) ^ 2 < n"
  proof (cases "n = 0")
    case True
    then show ?thesis by simp
  next
    case False
    then have "0 < sqrt (real n)" by simp
    then have "0 < \<lceil>sqrt (real n)\<rceil>" by (simp add: less_ceiling_iff)
    then have wpos: "0 < w" using rw by linarith
    have "of_int \<lceil>sqrt (real n)\<rceil> - 1 < sqrt (real n)"
      using ceiling_correct[of "sqrt (real n)"] by simp
    then have "real (w - 1) < sqrt (real n)"
      using wpos rw by (simp add: of_nat_diff)
    then have "(real (w - 1))\<^sup>2 < (sqrt (real n))\<^sup>2"
      by (intro power_strict_mono) simp_all
    then have "real ((w - 1) ^ 2) < real n" by simp
    then have "(w - 1) ^ 2 < n" by (simp only: of_nat_less_iff)
    then show ?thesis by simp
  qed
qed

text \<open>
  C5. For every training size \<open>n\<close>, the discriminator that \<open>create_discriminator\<close>
  builds has exactly two layers: one hidden dense layer, rectified-linear, of width
  \<open>ceil (sqrt n)\<close>, and a sigmoid output layer of one unit. The width \<open>w\<close> is the
  least number whose square reaches \<open>n\<close>: \<open>n \<le> w\<^sup>2\<close>, and \<open>(w - 1)\<^sup>2 < n\<close> unless
  \<open>n = 0\<close>. Sizes 10, 100 and 101 give widths 4, 10 and 11.
\<close>

theorem create_discriminator_hidden_width:
  "layers (create_discriminator K latent_size n) =
     [\<lparr>units = nat \<lceil>sqrt (real n)\<rceil>, input_dim = Some latent_size,
       activation = Relu, kernel_initializer = VarianceScaling 1\<rparr>,
      \<lparr>units = 1, input_dim = None,
       activation = Sigmoid, kernel_initializer = VarianceScaling 1\<rparr>]
   \<and> n \<le> (units (hd (layers (create_discriminator K latent_size n)))) ^ 2
   \<and> (n = 0 \<or> (units (hd (layers (create_discriminator K latent_size n))) - 1) ^ 2 < n)
   \<and> units (hd (layers (create_discriminator K latent_size 10))) = 4
   \<and> units (hd (layers (create_discriminator K latent_size 100))) = 10
   \<and> units (hd (layers (create_discriminator K latent_size 101))) = 11"
proof -
  have u: "units (hd (layers (create_discriminator K latent_size m))) =
      nat (math_ceil (math_sqrt (real m)))" for m
    by (simp add: create_discriminator_def Let_def)
  have a: "layers (create_discriminator K latent_size n) =
     [\<lparr>units = nat \<lceil>sqrt (real n)\<rceil>, input_dim = Some latent_size,
       activation = Relu, kernel_initializer = VarianceScaling 1\<rparr>,
      \<lparr>units = 1, input_dim = None,
       activation = Sigmoid, kernel_initializer = VarianceScaling 1\<rparr>]"
    by (simp add: create_discriminator_def Let_def math_ceil_def math_sqrt_def)
  have e1: "nat (math_ceil (math_sqrt (real (10::nat)))) = 4"
    by (rule ceil_sqrt_unique) simp_all
  have e2: "nat (math_ceil (math_sqrt (real (100::nat)))) = 10"
    by (rule ceil_sqrt_unique) simp_all
  have e3: "nat (math_ceil (math_sqrt (real (101::nat)))) = 11"
    by (rule ceil_sqrt_unique) simp_all
  have b: "n \<le> (units (hd (layers (create_discriminator K latent_size n)))) ^ 2"
    unfolding u by (rule ceil_sqrt_bounds(1))
  have c: "n = 0 \<or> (units (hd (layers (create_discriminator K latent_size n))) - 1) ^ 2 < n"
    unfolding u by (rule ceil_sqrt_bounds(2))
  show ?thesis
    using a b c e1 e2 e3 unfolding u[of 10] u[of 100] u[of 101] by blast
qed

section \<open>The effect of the loops\<close>

lemma batch_body_effect:
  assumes "ready f"
  shows "\<exists>f' noise gen. batch_body K X L bs e i f = Continue f' \<and> ready f' \<and>
           stop f' = stop f \<and> length noise = bs \<and> length gen = bs \<and>
           trace f' = trace f @
             [Print_testing (e + 1) (int i + 1), Generator_predict noise gen,
              Discriminator_train (slice X (i * bs) ((i + 1) * bs) @ gen)
                (replicate bs 1 @ replicate bs 0),
              if stop f = 0 then Combine_train noise (replicate bs 1)
              else Combine_evaluate noise (replicate bs 1)] \<and>
           stop_epochs (self f') = stop_epochs (self f) \<and>
           contamination (self f') = contamination (self f) \<and>
           decision_scores (self f') = decision_scores (self f) \<and>
           (stop f = 0 \<or> generator (self f') = generator (self f))"
proof -
  from assms obtain h g c d opt sl where
    a: "train_history (self f) = Some h" "generator (self f) = Some g"
       "combine_model (self f) = Some c" "discriminator (self f) = Some d"
       "optimizer d = Some (opt, sl)"
    by (auto simp: ready_def split: option.splits)
  show ?thesis
    using a
    by (simp add: batch_body_def Let_def np_random_uniform_def emit_def getattr_def
        generator_predict_def discriminator_train_on_batch_def history_append_def
        train_generator_def combine_model_train_on_batch_def combine_model_evaluate_def
        ready_def split: prod.splits)
qed

lemma batch_loop_effect:
  assumes "ready f"
  shows "\<exists>f' evs. for_loop js (batch_body K X L bs e) f = Continue f' \<and> ready f' \<and>
           stop f' = stop f \<and> trace f' = trace f @ evs \<and>
           batch_trace X bs e (stop f \<noteq> 0) js evs \<and>
           stop_epochs (self f') = stop_epochs (self f) \<and>
           contamination (self f') = contamination (self f) \<and>
           decision_scores (self f') = decision_scores (self f) \<and>
           (stop f = 0 \<or> generator (self f') = generator (self f))"
  using assms
proof (induction js arbitrary: f)
  case Nil
  then show ?case by simp
next
  case (Cons i js)
  from batch_body_effect[OF Cons.prems, of K X L bs e i]
  obtain f1 noise gen where
    b: "batch_body K X L bs e i f = Continue f1" and r1: "ready f1" and
    s1: "stop f1 = stop f" and ln: "length noise = bs" and lg: "length gen = bs" and
    t1: "trace f1 = trace f @
             [Print_testing (e + 1) (int i + 1), Generator_predict noise gen,
              Discriminator_train (slice X (i * bs) ((i + 1) * bs) @ gen)
                (replicate bs 1 @ replicate bs 0),
              if stop f = 0 then Combine_train noise (replicate bs 1)
              else Combine_evaluate noise (replicate bs 1)]" and
    k1: "stop_epochs (self f1) = stop_epochs (self f)"
        "contamination (self f1) = contamination (self f)"
        "decision_scores (self f1) = decision_scores (self f)" and
    g1: "stop f = 0 \<or> generator (self f1) = generator (self f)"
    by blast
  from Cons.IH[OF r1]
  obtain f2 evs where
    l: "for_loop js (batch_body K X L bs e) f1 = Continue f2" and r2: "ready f2" and
    s2: "stop f2 = stop f1" and t2: "trace f2 = trace f1 @ evs" and
    bt: "batch_trace X bs e (stop f1 \<noteq> 0) js evs" and
    k2: "stop_epochs (self f2) = stop_epochs (self f1)"
        "contamination (self f2) = contamination (self f1)"
        "decision_scores (self f2) = decision_scores (self f1)" and
    g2: "stop f1 = 0 \<or> generator (self f2) = generator (self f1)"
    by blast
  let ?evs = "[Print_testing (e + 1) (int i + 1), Generator_predict noise gen,
              Discriminator_train (slice X (i * bs) ((i + 1) * bs) @ gen)
                (replicate bs 1 @ replicate bs 0),
              if stop f = 0 then Combine_train noise (replicate bs 1)
              else Combine_evaluate noise (replicate bs 1)] @ evs"
  have 1: "for_loop (i # js) (batch_body K X L bs e) f = Continue f2"
    using b l by simp
  have 2: "trace f2 = trace f @ ?evs"
    using t1 t2 by simp
  have 3: "batch_trace X bs e (stop f \<noteq> 0) (i # js) ?evs"
    using bt ln lg s1 by simp
  have 4: "stop f = 0 \<or> generator (self f2) = generator (self f)"
    using g1 g2 s1 by auto
  show ?case
    using 1 2 3 4 r2 s1 s2 k1 k2 by (intro exI[of _ f2] exI[of _ ?evs]) simp
qed

lemma process_decision_scores_effect:
  assumes "decision_scores (self f) = Some sc"
  shows "\<exists>f'. process_decision_scores K f = Continue f' \<and>
           trace f' = trace f @ [Process_decision_scores] \<and> stop f' = stop f \<and>
           discriminator (self f') = discriminator (self f) \<and>
           generator (self f') = generator (self f) \<and>
           decision_scores (self f') = decision_scores (self f) \<and>
           stop_epochs (self f') = stop_epochs (self f) \<and>
           threshold (self f') \<noteq> None \<and> labels (self f') \<noteq> None"
  using assms
  by (simp add: process_decision_scores_def getattr_def emit_def Let_def split: prod.splits)

lemma epoch_body_effect:
  assumes r: "ready f" and n: "X \<noteq> []"
  shows "\<exists>f' evs d. epoch_body K X L (length X) E e f = Return Self f' \<and>
           stop f' = (if e + 1 > stop_epochs (self f) then 1 else stop f) \<and>
           trace f' = trace f @ [Print_epoch (e + 1) E] @ evs @
                        [Discriminator_predict X, Process_decision_scores] \<and>
           batch_trace X (min 500 (length X)) e (stop f \<noteq> 0)
             [0..<length X div min 500 (length X)] evs \<and>
           discriminator (self f') = Some d \<and>
           decision_scores (self f') = Some (discriminator_predict K d X) \<and>
           stop_epochs (self f') = stop_epochs (self f) \<and>
           threshold (self f') \<noteq> None \<and> labels (self f') \<noteq> None \<and>
           (stop f = 0 \<or> generator (self f') = generator (self f))"
proof -
  let ?bs = "min 500 (length X)"
  let ?f1 = "emit (Print_epoch (e + 1) E) f"
  have bs: "?bs \<noteq> 0" using n by simp
  have r1: "ready ?f1" using r by (simp add: ready_def emit_def)
  from batch_loop_effect[OF r1, of "[0..<length X div ?bs]" K X L ?bs e]
  obtain f2 evs where
    l: "for_loop [0..<length X div ?bs] (batch_body K X L ?bs e) ?f1 = Continue f2" and
    r2: "ready f2" and s2: "stop f2 = stop ?f1" and t2: "trace f2 = trace ?f1 @ evs" and
    bt: "batch_trace X ?bs e (stop ?f1 \<noteq> 0) [0..<length X div ?bs] evs" and
    k2: "stop_epochs (self f2) = stop_epochs (self ?f1)"
        "contamination (self f2) = contamination (self ?f1)"
        "decision_scores (self f2) = decision_scores (self ?f1)" and
    g2: "stop ?f1 = 0 \<or> generator (self f2) = generator (self ?f1)"
    by blast
  from r2 obtain d where d: "discriminator (self f2) = Some d"
    by (auto simp: ready_def split: option.splits)
  let ?f3 = "if e + 1 > stop_epochs (self f2) then f2\<lparr>stop := 1\<rparr> else f2"
  let ?f4 = "emit (Discriminator_predict X) ?f3"
  let ?f5 = "?f4\<lparr>self := (self ?f4)\<lparr>decision_scores := Some (discriminator_predict K d X)\<rparr>\<rparr>"
  have d3: "discriminator (self ?f3) = Some d" using d by simp
  have ds: "decision_scores (self ?f5) = Some (discriminator_predict K d X)" by simp
  from process_decision_scores_effect[OF ds, of K]
  obtain f6 where
    p: "process_decision_scores K ?f5 = Continue f6" and
    t6: "trace f6 = trace ?f5 @ [Process_decision_scores]" and
    s6: "stop f6 = stop ?f5" and
    k6: "discriminator (self f6) = discriminator (self ?f5)"
        "generator (self f6) = generator (self ?f5)"
        "decision_scores (self f6) = decision_scores (self ?f5)"
        "stop_epochs (self f6) = stop_epochs (self ?f5)"
        "threshold (self f6) \<noteq> None" "labels (self f6) \<noteq> None"
    by blast
  have 1: "epoch_body K X L (length X) E e f = Return Self f6"
    using bs l d3 p by (simp add: epoch_body_def Let_def getattr_def)
  have 2: "stop f6 = (if e + 1 > stop_epochs (self f) then 1 else stop f)"
    using s6 s2 k2 by (simp add: emit_def)
  have 3: "trace f6 = trace f @ [Print_epoch (e + 1) E] @ evs @
                        [Discriminator_predict X, Process_decision_scores]"
    using t6 t2 by (simp add: emit_def)
  have 4: "batch_trace X ?bs e (stop f \<noteq> 0) [0..<length X div ?bs] evs"
    using bt by (simp add: emit_def)
  have 5: "discriminator (self f6) = Some d"
    using k6 d by (simp add: emit_def)
  have 6: "decision_scores (self f6) = Some (discriminator_predict K d X)"
    using k6 by simp
  have 7: "stop_epochs (self f6) = stop_epochs (self f)"
    using k6 k2 by (simp add: emit_def)
  have 8: "stop f = 0 \<or> generator (self f6) = generator (self f)"
    using k6 g2 by (auto simp: emit_def)
  show ?thesis
    using 1 2 3 4 5 6 7 8 k6(5,6) by blast
qed

lemma check_array_Inr:
  "check_array X = Inr X' \<Longrightarrow> X' = X \<and> X \<noteq> []"
  by (auto simp: check_array_def split: if_splits)

text \<open>The frame with which fit enters its epoch loop.\<close>

lemma fit_valid_unfold:
  assumes v: "check_array X = Inr X"
  shows "\<exists>f7. ready f7 \<and> stop f7 = 0 \<and> trace f7 = trace f @ [Set_n_classes y] \<and>
           stop_epochs (self f7) = stop_epochs (self f) \<and>
           decision_scores (self f7) = decision_scores (self f) \<and>
           discriminator (self f7) \<noteq> None \<and>
           train_history (self f7) = Some (\<lambda>key. []) \<and>
           fit K X y f =
             (case for_loop [0..stop_epochs (self f) * 3 - 1]
                     (epoch_body K X (length (hd X)) (length X) (stop_epochs (self f) * 3)) f7 of
                Continue f8 \<Rightarrow> Return PyNone f8
              | Return r f8 \<Rightarrow> Return r f8
              | Raise e f8 \<Rightarrow> Raise e f8)"
proof -
  let ?od = "\<lparr>lr = lr_d (self f), decay = sg_decay (self f), momentum = sg_momentum (self f)\<rparr>"
  let ?og = "\<lparr>lr = lr_g (self f), decay = sg_decay (self f), momentum = sg_momentum (self f)\<rparr>"
  let ?f7 = "f\<lparr>trace := trace f @ [Set_n_classes y], stop := 0,
      self := self f
        \<lparr>train_history := Some (\<lambda>key. []),
         generator := Some (create_generator K (length (hd X))),
         discriminator :=
           Some (create_discriminator K (length (hd X)) (length X)
                  \<lparr>optimizer := Some (?od, initial_slots K ?od), trainable := False\<rparr>),
         combine_model := Some \<lparr>cm_optimizer = ?og, cm_slots = initial_slots K ?og\<rparr>\<rparr>\<rparr>"
  show ?thesis
    using v
    by (intro exI[of _ ?f7])
       (simp add: fit_def Let_def set_n_classes_def emit_def ready_def model_compile_def)
qed

lemma fit_run:
  assumes v: "check_array X = Inr X" and se: "1 \<le> stop_epochs (self f)"
  shows "\<exists>f' evs d. fit K X y f = Return Self f' \<and> stop f' = 0 \<and>
           trace f' = trace f @ [Set_n_classes y, Print_epoch 1 (stop_epochs (self f) * 3)] @
                        evs @ [Discriminator_predict X, Process_decision_scores] \<and>
           batch_trace X (min 500 (length X)) 0 False
             [0..<length X div min 500 (length X)] evs \<and>
           discriminator (self f') = Some d \<and>
           decision_scores (self f') = Some (discriminator_predict K d X) \<and>
           threshold (self f') \<noteq> None \<and> labels (self f') \<noteq> None"
proof -
  let ?E = "stop_epochs (self f) * 3"
  from fit_valid_unfold[OF v, of f y K]
  obtain f7 where r: "ready f7" and s: "stop f7 = 0" and
    t: "trace f7 = trace f @ [Set_n_classes y]" and
    k: "stop_epochs (self f7) = stop_epochs (self f)" and
    u: "fit K X y f =
             (case for_loop [0..?E - 1]
                     (epoch_body K X (length (hd X)) (length X) ?E) f7 of
                Continue f8 \<Rightarrow> Return PyNone f8
              | Return r f8 \<Rightarrow> Return r f8
              | Raise e f8 \<Rightarrow> Raise e f8)"
    by blast
  have n: "X \<noteq> []" using check_array_Inr[OF v] by simp
  have range: "[0..?E - 1] = 0 # [1..?E - 1]"
    using se by (subst upto_rec1) simp_all
  from epoch_body_effect[OF r n, of K "length (hd X)" ?E 0]
  obtain f' evs d where
    b: "epoch_body K X (length (hd X)) (length X) ?E 0 f7 = Return Self f'" and
    s': "stop f' = (if 0 + 1 > stop_epochs (self f7) then 1 else stop f7)" and
    t': "trace f' = trace f7 @ [Print_epoch (0 + 1) ?E] @ evs @
                        [Discriminator_predict X, Process_decision_scores]" and
    bt: "batch_trace X (min 500 (length X)) 0 (stop f7 \<noteq> 0)
             [0..<length X div min 500 (length X)] evs" and
    d: "discriminator (self f') = Some d"
       "decision_scores (self f') = Some (discriminator_predict K d X)"
       "threshold (self f') \<noteq> None" "labels (self f') \<noteq> None"
    by blast
  have 1: "fit K X y f = Return Self f'"
    unfolding u range using b by simp
  have 2: "stop f' = 0" using s' s k se by simp
  have 3: "trace f' = trace f @ [Set_n_classes y, Print_epoch 1 ?E] @
                        evs @ [Discriminator_predict X, Process_decision_scores]"
    using t' t by simp
  have 4: "batch_trace X (min 500 (length X)) 0 False
             [0..<length X div min 500 (length X)] evs"
    using bt s by simp
  show ?thesis using 1 2 3 4 d by blast
qed

lemma fit_no_epochs:
  assumes v: "check_array X = Inr X" and se: "stop_epochs (self f) \<le> 0"
  shows "\<exists>f'. fit K X y f = Return PyNone f' \<and>
           trace f' = trace f @ [Set_n_classes y] \<and>
           decision_scores (self f') = decision_scores (self f) \<and>
           discriminator (self f') \<noteq> None \<and>
           train_history (self f') = Some (\<lambda>key. [])"
proof -
  let ?E = "stop_epochs (self f) * 3"
  from fit_valid_unfold[OF v, of f y K]
  obtain f7 where
    t: "trace f7 = trace f @ [Set_n_classes y]" and
    k: "decision_scores (self f7) = decision_scores (self f)"
       "discriminator (self f7) \<noteq> None" "train_history (self f7) = Some (\<lambda>key. [])" and
    u: "fit K X y f =
             (case for_loop [0..?E - 1]
                     (epoch_body K X (length (hd X)) (length X) ?E) f7 of
                Continue f8 \<Rightarrow> Return PyNone f8
              | Return r f8 \<Rightarrow> Return r f8
              | Raise e f8 \<Rightarrow> Raise e f8)"
    by blast
  have range: "[0..?E - 1] = []" using se by simp
  have "fit K X y f = Return PyNone f7" unfolding u range by simp
  then show ?thesis using t k by blast
qed

lemma fit_invalid:
  "check_array X = Inl e \<Longrightarrow> fit K X y f = Raise e f"
  by (simp add: fit_def)

section \<open>The traces of fit\<close>

lemma check_array_cases:
  "check_array X = Inl ValueError \<or> check_array X = Inr X"
  by (simp add: check_array_def)

lemma projections_append:
  "epochs_printed (xs @ ys) = epochs_printed xs @ epochs_printed ys"
  "batches_printed (xs @ ys) = batches_printed xs @ batches_printed ys"
  "generated_batches (xs @ ys) = generated_batches xs @ generated_batches ys"
  "dis_batches (xs @ ys) = dis_batches xs @ dis_batches ys"
  "generator_steps (xs @ ys) = generator_steps xs @ generator_steps ys"
  by (simp_all add: epochs_printed_def batches_printed_def generated_batches_def
      dis_batches_def generator_steps_def)

lemma batch_trace_epochs_printed:
  "batch_trace X bs e frozen js evs \<Longrightarrow> epochs_printed evs = []"
  by (induction X bs e frozen js evs rule: batch_trace.induct)
     (auto simp: epochs_printed_def)

lemma batch_trace_batches_printed:
  "batch_trace X bs e frozen js evs \<Longrightarrow>
     batches_printed evs = map (\<lambda>i. (e + 1, int i + 1)) js"
  by (induction X bs e frozen js evs rule: batch_trace.induct)
     (auto simp: batches_printed_def)

lemma batch_trace_generator_steps:
  "batch_trace X bs e frozen js evs \<Longrightarrow>
     generator_steps evs = replicate (length js) (\<not> frozen)"
  by (induction X bs e frozen js evs rule: batch_trace.induct)
     (auto simp: generator_steps_def)

lemma batch_trace_generated:
  "batch_trace X bs e frozen js evs \<Longrightarrow>
     length (generated_batches evs) = length js \<and>
     (\<forall>g \<in> set (generated_batches evs). length g = bs)"
  by (induction X bs e frozen js evs rule: batch_trace.induct)
     (auto simp: generated_batches_def)

lemma batch_trace_dis_batches:
  "batch_trace X bs e frozen js evs \<Longrightarrow>
     dis_batches evs =
       map (\<lambda>(i, gen). (slice X (i * bs) ((i + 1) * bs) @ gen,
                         replicate bs 1 @ replicate bs 0))
         (zip js (generated_batches evs))"
  by (induction X bs e frozen js evs rule: batch_trace.induct)
     (auto simp: dis_batches_def generated_batches_def)

lemma window_in_range:
  fixes i n bs :: nat
  assumes "i < n div bs"
  shows "(i + 1) * bs \<le> n"
proof -
  have "(i + 1) * bs \<le> (n div bs) * bs"
    using assms by (intro mult_le_mono1) simp
  also have "\<dots> \<le> n" by simp
  finally show ?thesis .
qed

lemma slice_rows:
  assumes "(i + 1) * bs \<le> length X"
  shows "slice X (i * bs) ((i + 1) * bs) = map ((!) X) [i * bs..<(i + 1) * bs]"
    and "length (slice X (i * bs) ((i + 1) * bs)) = bs"
proof -
  have "take bs (drop (i * bs) X) = map ((!) X) [i * bs..<i * bs + bs]"
  proof (rule nth_equalityI)
    show "length (take bs (drop (i * bs) X)) = length (map ((!) X) [i * bs..<i * bs + bs])"
      using assms by simp
  next
    fix j
    assume "j < length (take bs (drop (i * bs) X))"
    then have j: "j < bs" by simp
    then show "take bs (drop (i * bs) X) ! j = map ((!) X) [i * bs..<i * bs + bs] ! j"
      using assms by simp
  qed
  then show "slice X (i * bs) ((i + 1) * bs) = map ((!) X) [i * bs..<(i + 1) * bs]"
    by (simp add: slice_def add.commute)
  show "length (slice X (i * bs) ((i + 1) * bs)) = bs"
    using assms by (simp add: slice_def)
qed

lemma concat_windows:
  "concat (map (\<lambda>i. slice X (i * bs) ((i + 1) * bs)) [0..<k]) = take (k * bs) X"
proof (induction k)
  case 0
  then show ?case by simp
next
  case (Suc k)
  have "take (k * bs + bs) X = take (k * bs) X @ take bs (drop (k * bs) X)"
    by (rule take_add)
  then have "take (Suc k * bs) X = take (k * bs) X @ slice X (k * bs) ((k + 1) * bs)"
    by (simp add: slice_def add.commute)
  with Suc show ?case by simp
qed

lemma fit_trace_run:
  assumes v: "check_array X = Inr X" and se: "1 \<le> stop_epochs (self f)"
  shows "\<exists>evs. fit_trace K X y f =
             [Set_n_classes y, Print_epoch 1 (stop_epochs (self f) * 3)] @ evs @
               [Discriminator_predict X, Process_decision_scores] \<and>
           batch_trace X (min 500 (length X)) 0 False
             [0..<length X div min 500 (length X)] evs"
proof -
  from fit_run[OF v se, of K y]
  obtain f' evs where
    "fit K X y f = Return Self f'"
    "trace f' = trace f @ [Set_n_classes y, Print_epoch 1 (stop_epochs (self f) * 3)] @
                        evs @ [Discriminator_predict X, Process_decision_scores]"
    "batch_trace X (min 500 (length X)) 0 False [0..<length X div min 500 (length X)] evs"
    by blast
  then show ?thesis by (auto simp: fit_trace_def)
qed

lemma fit_trace_no_epochs:
  assumes v: "check_array X = Inr X" and se: "stop_epochs (self f) \<le> 0"
  shows "fit_trace K X y f = [Set_n_classes y]"
proof -
  from fit_no_epochs[OF v se, of K y]
  obtain f' where "fit K X y f = Return PyNone f'" "trace f' = trace f @ [Set_n_classes y]"
    by blast
  then show ?thesis by (simp add: fit_trace_def)
qed

lemma fit_trace_invalid:
  "check_array X = Inl e \<Longrightarrow> fit_trace K X y f = []"
  by (simp add: fit_trace_def fit_invalid)

lemma valid3: "check_array [[1], [2], [3]] = Inr [[1], [2], [3]]"
  by (simp add: check_array_def)

lemma valid_replicate: "0 < n \<Longrightarrow> check_array (replicate n [0]) = Inr (replicate n [0])"
  by (cases n) (simp_all add: check_array_def)

lemma stop_epochs_frame0: "stop_epochs (self (frame0 se)) = se"
  by (simp add: frame0_def SO_GAAL_init_def)

text \<open>
  C1. When \<open>stop_epochs\<close> is at least 1 and \<open>X\<close> passes validation, \<open>fit\<close> returns
  \<open>self\<close> from inside epoch index 0. Its calls are: the class hook, the print of
  epoch 1, the batches of epoch 1 (and of no other epoch), the discriminator's
  prediction over the whole of \<open>X\<close>, and the score-processing hook, after which it
  returns. The stored scores are that prediction. Only one epoch is printed,
  whatever \<open>epochs = stop_epochs * 3\<close> is.
\<close>

theorem fit_returns_in_first_epoch:
  assumes v: "check_array X = Inr X" and se: "1 \<le> stop_epochs (self f)"
  shows "\<exists>f' d evs. fit K X y f = Return Self f' \<and>
           fit_trace K X y f =
             [Set_n_classes y, Print_epoch 1 (stop_epochs (self f) * 3)] @ evs @
               [Discriminator_predict X, Process_decision_scores] \<and>
           batch_trace X (min 500 (length X)) 0 False
             [0..<length X div min 500 (length X)] evs \<and>
           epochs_printed (fit_trace K X y f) = [(1, stop_epochs (self f) * 3)] \<and>
           batches_printed (fit_trace K X y f) =
             map (\<lambda>i. (1, int i + 1)) [0..<length X div min 500 (length X)] \<and>
           discriminator (self f') = Some d \<and>
           decision_scores (self f') = Some (discriminator_predict K d X) \<and>
           threshold (self f') \<noteq> None \<and> labels (self f') \<noteq> None"
proof -
  let ?E = "stop_epochs (self f) * 3"
  let ?js = "[0..<length X div min 500 (length X)]"
  from fit_run[OF v se, of K y]
  obtain f' evs d where
    r: "fit K X y f = Return Self f'" and
    t: "trace f' = trace f @ [Set_n_classes y, Print_epoch 1 ?E] @
                        evs @ [Discriminator_predict X, Process_decision_scores]" and
    bt: "batch_trace X (min 500 (length X)) 0 False ?js evs" and
    d: "discriminator (self f') = Some d"
       "decision_scores (self f') = Some (discriminator_predict K d X)"
       "threshold (self f') \<noteq> None" "labels (self f') \<noteq> None"
    by blast
  have ft: "fit_trace K X y f = [Set_n_classes y, Print_epoch 1 ?E] @ evs @
               [Discriminator_predict X, Process_decision_scores]"
    using r t by (simp add: fit_trace_def)
  have ep: "epochs_printed (fit_trace K X y f) = [(1, ?E)]"
    unfolding ft projections_append batch_trace_epochs_printed[OF bt]
    by (simp add: epochs_printed_def)
  have bp: "batches_printed (fit_trace K X y f) = map (\<lambda>i. (1, int i + 1)) ?js"
    unfolding ft projections_append batch_trace_batches_printed[OF bt]
    by (simp add: batches_printed_def)
  show ?thesis using r ft bt ep bp d by blast
qed

theorem fit_returns_in_first_epoch_witness:
  "check_array [[1], [2], [3]] = Inr [[1], [2], [3]] \<and>
   1 \<le> stop_epochs (self (frame0 20)) \<and>
   (\<exists>f'. fit K0 [[1], [2], [3]] None (frame0 20) = Return Self f') \<and>
   epochs_printed (fit_trace K0 [[1], [2], [3]] None (frame0 20)) = [(1, 60)] \<and>
   batches_printed (fit_trace K0 [[1], [2], [3]] None (frame0 20)) = [(1, 1)]"
proof -
  have se: "1 \<le> stop_epochs (self (frame0 20))" by (simp add: stop_epochs_frame0)
  from fit_returns_in_first_epoch[OF valid3 se, of K0 None]
  show ?thesis using valid3 se by (auto simp: stop_epochs_frame0)
qed

text \<open>
  C2. The scores after \<open>fit\<close> on a matrix that passes validation and has at least
  twice as many rows as the batch size. The scores are assigned inside the epoch
  loop (lines 243 to 246), so they exist only if the loop runs: on 1000 rows with
  \<open>stop_epochs = 0\<close> the loop is over an empty range, \<open>fit\<close> returns \<open>None\<close> and
  the decision scores are as unassigned as before the call, where a vector of 1000
  scores is expected. With \<open>stop_epochs = 20\<close> the same matrix gives \<open>self\<close> and
  1000 scores.
\<close>

theorem fit_zero_stop_epochs_no_scores:
  "check_array (replicate 1000 [0]) = Inr (replicate 1000 [0]) \<and>
   2 * min 500 (length (replicate 1000 [0::real])) \<le> length (replicate 1000 [0::real]) \<and>
   stop_epochs (self (frame0 0)) = 0 \<and>
   decision_scores (self (frame0 0)) = None \<and>
   (\<exists>f'. fit K0 (replicate 1000 [0]) None (frame0 0) = Return PyNone f' \<and>
      decision_scores (self f') = None) \<and>
   (\<exists>f' sc. fit K0 (replicate 1000 [0]) None (frame0 20) = Return Self f' \<and>
      decision_scores (self f') = Some sc \<and> length sc = 1000)"
proof -
  have v: "check_array (replicate 1000 [0]) = Inr (replicate 1000 [0])"
    by (rule valid_replicate) simp
  have n: "2 * min 500 (length (replicate 1000 [0::real])) \<le> length (replicate 1000 [0::real])"
    by simp
  have s0: "stop_epochs (self (frame0 0)) = 0" by (simp add: stop_epochs_frame0)
  have d0: "decision_scores (self (frame0 0)) = None"
    by (simp add: frame0_def SO_GAAL_init_def)
  have "stop_epochs (self (frame0 0)) \<le> 0" using s0 by simp
  from fit_no_epochs[OF v this, of K0 None]
  have a: "\<exists>f'. fit K0 (replicate 1000 [0]) None (frame0 0) = Return PyNone f' \<and>
      decision_scores (self f') = None"
    using d0 by auto
  have "1 \<le> stop_epochs (self (frame0 20))" by (simp add: stop_epochs_frame0)
  from fit_run[OF v this, of K0 None]
  have b: "\<exists>f' sc. fit K0 (replicate 1000 [0]) None (frame0 20) = Return Self f' \<and>
      decision_scores (self f') = Some sc \<and> length sc = 1000"
    by (auto simp: discriminator_predict_def)
  show ?thesis by (intro conjI) (fact v n s0 d0 a b)+
qed

text \<open>
  C3. After \<open>fit\<close> on a valid \<open>X\<close> (with \<open>stop_epochs\<close> at least 1), calling
  \<open>decision_function\<close> on the same \<open>X\<close> and the instance as \<open>fit\<close> left it returns
  exactly the stored decision scores: the same rows in the same order.
\<close>

theorem decision_function_after_fit:
  assumes v: "check_array X = Inr X" and se: "1 \<le> stop_epochs (self f)"
  shows "\<exists>sc. decision_scores (self (frame_of (fit K X y f))) = Some sc \<and>
           decision_function K (self (frame_of (fit K X y f))) X = Inr sc \<and>
           length sc = length X"
proof -
  from fit_run[OF v se, of K y]
  obtain f' d where
    r: "fit K X y f = Return Self f'" and
    d: "discriminator (self f') = Some d"
       "decision_scores (self f') = Some (discriminator_predict K d X)"
    by blast
  have "decision_function K (self f') X = Inr (discriminator_predict K d X)"
    using d v by (simp add: decision_function_def check_is_fitted_def)
  then show ?thesis
    using r d by (simp add: discriminator_predict_def)
qed

theorem decision_function_after_fit_witness:
  "check_array [[1], [2], [3]] = Inr [[1], [2], [3]] \<and>
   1 \<le> stop_epochs (self (frame0 20)) \<and>
   (\<exists>sc. decision_scores (self (frame_of (fit K0 [[1], [2], [3]] None (frame0 20)))) = Some sc \<and>
      decision_function K0 (self (frame_of (fit K0 [[1], [2], [3]] None (frame0 20))))
        [[1], [2], [3]] = Inr sc \<and> length sc = 3)"
proof -
  have se: "1 \<le> stop_epochs (self (frame0 20))" by (simp add: stop_epochs_frame0)
  from decision_function_after_fit[OF valid3 se, of K0 None]
  show ?thesis using valid3 se by auto
qed

lemma count_list_replicate:
  "count_list (replicate n x) y = (if x = y then n else 0)"
  by (induction n) auto

lemma slice_window_length:
  "bs + i * bs \<le> length X \<Longrightarrow> length (slice X (i * bs) (bs + i * bs)) = bs"
  by (simp add: slice_def)

lemma batch_trace_shapes:
  "batch_trace X bs e frozen js evs \<Longrightarrow> (\<forall>i \<in> set js. (i + 1) * bs \<le> length X) \<Longrightarrow>
     list_all (\<lambda>(x, y). length x = 2 * bs \<and> length y = 2 * bs \<and>
                 y = replicate bs 1 @ replicate bs 0 \<and>
                 count_list y 1 = bs \<and> count_list y 0 = bs) (dis_batches evs)"
  by (induction X bs e frozen js evs rule: batch_trace.induct)
     (auto simp: dis_batches_def slice_window_length count_list_replicate)

lemma windows_in_range:
  "\<forall>i \<in> set [0..<length X div bs]. (i + 1) * bs \<le> length X"
  using window_in_range[of _ "length X" bs] by simp

lemma fit_trace_cases:
  "(check_array X = Inr X \<and> 1 \<le> stop_epochs (self f) \<and>
      (\<exists>evs. fit_trace K X y f =
             [Set_n_classes y, Print_epoch 1 (stop_epochs (self f) * 3)] @ evs @
               [Discriminator_predict X, Process_decision_scores] \<and>
           batch_trace X (min 500 (length X)) 0 False
             [0..<length X div min 500 (length X)] evs)) \<or>
   (\<not> (check_array X = Inr X \<and> 1 \<le> stop_epochs (self f)) \<and>
      (fit_trace K X y f = [Set_n_classes y] \<or> fit_trace K X y f = []))"
proof (cases "check_array X = Inr X")
  case v: True
  show ?thesis
  proof (cases "1 \<le> stop_epochs (self f)")
    case True
    with v fit_trace_run[OF v True, of K y] show ?thesis by blast
  next
    case False
    then have "stop_epochs (self f) \<le> 0" by simp
    from fit_trace_no_epochs[OF v this, of K y] False show ?thesis by blast
  qed
next
  case False
  then have "check_array X = Inl ValueError" using check_array_cases[of X] by simp
  from fit_trace_invalid[OF this, of K y f] False show ?thesis by blast
qed

lemma projections_simps:
  "dis_batches [Set_n_classes y] = []" "dis_batches [] = []"
  "dis_batches [Set_n_classes y, Print_epoch a b] = []"
  "dis_batches [Discriminator_predict X, Process_decision_scores] = []"
  "generated_batches [Set_n_classes y] = []" "generated_batches [] = []"
  "generated_batches [Set_n_classes y, Print_epoch a b] = []"
  "generated_batches [Discriminator_predict X, Process_decision_scores] = []"
  "generator_steps [Set_n_classes y] = []" "generator_steps [] = []"
  "generator_steps [Set_n_classes y, Print_epoch a b] = []"
  "generator_steps [Discriminator_predict X, Process_decision_scores] = []"
  "batches_printed [Set_n_classes y] = []" "batches_printed [] = []"
  "epochs_printed [Set_n_classes y] = []" "epochs_printed [] = []"
  by (simp_all add: dis_batches_def generated_batches_def generator_steps_def
      batches_printed_def epochs_printed_def)

lemma batch_trace_data_slices:
  "batch_trace X bs e frozen js evs \<Longrightarrow>
     data_batches evs = map (\<lambda>i. slice X (i * bs) ((i + 1) * bs)) js"
  by (induction X bs e frozen js evs rule: batch_trace.induct)
     (auto simp: data_batches_def dis_batches_def generated_batches_def)

lemma window_rows:
  "\<forall>i \<in> set js. (i + 1) * bs \<le> length X \<Longrightarrow>
     map (\<lambda>i. slice X (i * bs) ((i + 1) * bs)) js =
     map (\<lambda>i. map ((!) X) [i * bs..<(i + 1) * bs]) js"
  using slice_rows(1)[of _ bs X] by (intro map_cong refl) blast

lemma batch_trace_rows:
  assumes bt: "batch_trace X bs e frozen js evs"
    and r: "\<forall>i \<in> set js. (i + 1) * bs \<le> length X"
  shows "dis_batches evs =
       map (\<lambda>(i, gen). (map ((!) X) [i * bs..<(i + 1) * bs] @ gen,
                         replicate bs 1 @ replicate bs 0))
         (zip js (generated_batches evs))"
proof -
  have "map (\<lambda>(i, gen). (slice X (i * bs) ((i + 1) * bs) @ gen,
                         replicate bs (1::int) @ replicate bs 0))
         (zip js (generated_batches evs)) =
        map (\<lambda>(i, gen). (map ((!) X) [i * bs..<(i + 1) * bs] @ gen,
                         replicate bs 1 @ replicate bs 0))
         (zip js (generated_batches evs))"
  proof (intro map_cong refl)
    fix p assume "p \<in> set (zip js (generated_batches evs))"
    then have "fst p \<in> set js"
      using set_zip_leftD[of "fst p" "snd p" js "generated_batches evs"] by simp
    then have "slice X (fst p * bs) ((fst p + 1) * bs) =
        map ((!) X) [fst p * bs..<(fst p + 1) * bs]"
      using r slice_rows(1)[of "fst p" bs X] by blast
    then show "(case p of (i, gen) \<Rightarrow> (slice X (i * bs) ((i + 1) * bs) @ gen,
                         replicate bs (1::int) @ replicate bs 0)) =
       (case p of (i, gen) \<Rightarrow> (map ((!) X) [i * bs..<(i + 1) * bs] @ gen,
                         replicate bs 1 @ replicate bs 0))"
      by (cases p) (simp only: fst_conv prod.case)
  qed
  with batch_trace_dis_batches[OF bt] show ?thesis by (simp only:)
qed

lemma data_batches_simps:
  "data_batches [Set_n_classes y] = []" "data_batches [] = []"
  by (simp_all add: data_batches_def dis_batches_def generated_batches_def)

lemma length_ramp: "length (ramp n) = n"
  by (simp add: ramp_def)

lemma valid_ramp: "0 < n \<Longrightarrow> check_array (ramp n) = Inr (ramp n)"
  by (auto simp: check_array_def ramp_def hd_map)

lemma ramp_rows: "b \<le> n \<Longrightarrow> map ((!) (ramp n)) [a..<b] = map (\<lambda>j. [real j]) [a..<b]"
  by (simp add: ramp_def)

lemma take_ramp: "k \<le> n \<Longrightarrow> take k (ramp n) = ramp k"
  by (simp add: ramp_def take_map min_def)

lemma drop_ramp: "drop k (ramp n) = map (\<lambda>j. [real j]) [k..<n]"
  by (simp add: ramp_def drop_map)

lemma set_ramp: "[r] \<in> set (ramp n) \<longleftrightarrow> (\<exists>j < n. r = real j)"
  by (auto simp: ramp_def)

text \<open>
  C6. In a run of \<open>fit\<close> the batch size is \<open>min 500 n\<close> and the number of batches
  is \<open>n div batch_size\<close>. When the run trains at all (\<open>X\<close> valid and \<open>stop_epochs\<close>
  at least 1), there is one training batch per index \<open>i\<close> below the number of batches,
  and it is the rows of \<open>X\<close> at the positions \<open>i * batch_size\<close> up to
  \<open>(i + 1) * batch_size - 1\<close>, those and no others, followed by the \<open>batch_size\<close> rows
  the generator returned for that batch; otherwise there is no batch. The rows of \<open>X\<close>
  in the batches, in order, are the first \<open>num_batches * batch_size\<close> rows of \<open>X\<close>; the
  \<open>n mod batch_size\<close> rows after them are in no batch.
\<close>

theorem fit_batch_windows:
  "dis_batches (fit_trace K X y f) =
     (if check_array X = Inr X \<and> 1 \<le> stop_epochs (self f)
      then map (\<lambda>(i, gen).
                  (map ((!) X) [i * min 500 (length X)..<(i + 1) * min 500 (length X)] @ gen,
                   replicate (min 500 (length X)) 1 @ replicate (min 500 (length X)) 0))
             (zip [0..<length X div min 500 (length X)]
                (generated_batches (fit_trace K X y f)))
      else []) \<and>
   length (generated_batches (fit_trace K X y f)) =
     (if check_array X = Inr X \<and> 1 \<le> stop_epochs (self f)
      then length X div min 500 (length X) else 0) \<and>
   list_all (\<lambda>gen. length gen = min 500 (length X)) (generated_batches (fit_trace K X y f)) \<and>
   data_batches (fit_trace K X y f) =
     (if check_array X = Inr X \<and> 1 \<le> stop_epochs (self f)
      then map (\<lambda>i. map ((!) X) [i * min 500 (length X)..<(i + 1) * min 500 (length X)])
             [0..<length X div min 500 (length X)]
      else []) \<and>
   concat (data_batches (fit_trace K X y f)) =
     (if check_array X = Inr X \<and> 1 \<le> stop_epochs (self f)
      then take (length X div min 500 (length X) * min 500 (length X)) X
      else []) \<and>
   length (drop (length X div min 500 (length X) * min 500 (length X)) X) =
     length X mod min 500 (length X)"
proof -
  let ?bs = "min 500 (length X)"
  let ?js = "[0..<length X div ?bs]"
  let ?T = "fit_trace K X y f"
  let ?C = "check_array X = Inr X \<and> 1 \<le> stop_epochs (self f)"
  let ?rows = "map (\<lambda>i. map ((!) X) [i * ?bs..<(i + 1) * ?bs]) ?js"
  have tail: "length (drop (length X div ?bs * ?bs) X) = length X mod ?bs"
    by (simp add: minus_div_mult_eq_mod)
  have cw: "concat ?rows = take (length X div ?bs * ?bs) X"
    unfolding window_rows[OF windows_in_range, symmetric] by (rule concat_windows)
  from fit_trace_cases[of X f K y]
  show ?thesis
  proof (elim disjE conjE exE)
    fix evs
    assume c: "check_array X = Inr X" "1 \<le> stop_epochs (self f)"
      and t: "?T = [Set_n_classes y, Print_epoch 1 (stop_epochs (self f) * 3)] @ evs @
               [Discriminator_predict X, Process_decision_scores]"
      and bt: "batch_trace X ?bs 0 False ?js evs"
    have db: "dis_batches ?T = dis_batches evs"
      unfolding t projections_append by (simp add: projections_simps)
    have gb: "generated_batches ?T = generated_batches evs"
      unfolding t projections_append by (simp add: projections_simps)
    have dd: "data_batches ?T = data_batches evs"
      unfolding data_batches_def db gb ..
    have 1: "dis_batches ?T =
        map (\<lambda>(i, gen). (map ((!) X) [i * ?bs..<(i + 1) * ?bs] @ gen,
                          replicate ?bs 1 @ replicate ?bs 0))
          (zip ?js (generated_batches ?T))"
      unfolding db gb by (rule batch_trace_rows[OF bt windows_in_range])
    have 2: "length (generated_batches ?T) = length X div ?bs"
      unfolding gb using batch_trace_generated[OF bt] by simp
    have 3: "list_all (\<lambda>gen. length gen = ?bs) (generated_batches ?T)"
      unfolding gb using batch_trace_generated[OF bt] by (simp add: list_all_iff)
    have 4: "data_batches ?T = ?rows"
      unfolding dd batch_trace_data_slices[OF bt] by (rule window_rows[OF windows_in_range])
    have 5: "concat (data_batches ?T) = take (length X div ?bs * ?bs) X"
      unfolding 4 by (rule cw)
    have C: ?C using c by simp
    show ?thesis
      unfolding if_P[OF C] using 1 2 3 4 5 tail by blast
  next
    assume n: "\<not> ?C" and e: "?T = [Set_n_classes y]"
    show ?thesis unfolding if_not_P[OF n] e using tail
      by (simp add: projections_simps data_batches_simps)
  next
    assume n: "\<not> ?C" and e: "?T = []"
    show ?thesis unfolding if_not_P[OF n] e using tail
      by (simp add: projections_simps data_batches_simps)
  qed
qed


text \<open>
  1200 rows, the row at position \<open>j\<close> holding the number \<open>j\<close>: the batch size is 500,
  there are two batches, holding the rows 0 to 499 and 500 to 999, and the rows
  1000 to 1199 are in neither.
\<close>

theorem fit_batch_windows_witness:
  "min 500 (length (ramp 1200)) = 500 \<and>
   length (ramp 1200) div 500 = 2 \<and>
   data_batches (fit_trace K0 (ramp 1200) None (frame0 20)) =
     [map (\<lambda>j. [real j]) [0..<500], map (\<lambda>j. [real j]) [500..<1000]] \<and>
   (\<exists>g0 g1. length g0 = 500 \<and> length g1 = 500 \<and>
      map fst (dis_batches (fit_trace K0 (ramp 1200) None (frame0 20))) =
        [map (\<lambda>j. [real j]) [0..<500] @ g0, map (\<lambda>j. [real j]) [500..<1000] @ g1]) \<and>
   concat (data_batches (fit_trace K0 (ramp 1200) None (frame0 20))) = ramp 1000 \<and>
   drop 1000 (ramp 1200) = map (\<lambda>j. [real j]) [1000..<1200] \<and>
   length (drop 1000 (ramp 1200)) = 200 \<and>
   [999] \<in> set (concat (data_batches (fit_trace K0 (ramp 1200) None (frame0 20)))) \<and>
   [1000] \<notin> set (concat (data_batches (fit_trace K0 (ramp 1200) None (frame0 20)))) \<and>
   [1199] \<notin> set (concat (data_batches (fit_trace K0 (ramp 1200) None (frame0 20))))"
proof -
  let ?T = "fit_trace K0 (ramp 1200) None (frame0 20)"
  have v: "check_array (ramp 1200) = Inr (ramp 1200)"
    by (rule valid_ramp) simp
  have se: "1 \<le> stop_epochs (self (frame0 20))" by (simp add: stop_epochs_frame0)
  have C: "check_array (ramp 1200) = Inr (ramp 1200) \<and> 1 \<le> stop_epochs (self (frame0 20))"
    using v se by simp
  have m: "min 500 (length (ramp 1200)) = 500" by (simp add: length_ramp)
  have q: "length (ramp 1200) div 500 = 2" by (simp add: length_ramp)
  have u: "[0..<2::nat] = [0, 1]" by (simp add: upt_conv_Cons)
  have r0: "map ((!) (ramp 1200)) [0..<500] = map (\<lambda>j. [real j]) [0..<500]"
    by (rule ramp_rows) simp
  have r1: "map ((!) (ramp 1200)) [500..<1000] = map (\<lambda>j. [real j]) [500..<1000]"
    by (rule ramp_rows) simp
  have b0: "0 * 500 = (0::nat)" "(0 + 1) * 500 = (500::nat)" by simp_all
  have b1: "1 * 500 = (500::nat)" "(1 + 1) * 500 = (1000::nat)" by simp_all
  have w0: "map ((!) (ramp 1200)) [0 * 500..<(0 + 1) * 500] = map (\<lambda>j. [real j]) [0..<500]"
    unfolding b0 by (rule r0)
  have w1: "map ((!) (ramp 1200)) [1 * 500..<(1 + 1) * 500] = map (\<lambda>j. [real j]) [500..<1000]"
    unfolding b1 by (rule r1)
  have tk: "take (2 * 500) (ramp 1200) = ramp 1000"
    using take_ramp[of 1000 1200] by simp
  note th = fit_batch_windows[where X = "ramp 1200" and K = K0 and y = None and f = "frame0 20",
      unfolded m q if_P[OF C] u]
  have d: "data_batches ?T =
      [map (\<lambda>j. [real j]) [0..<500], map (\<lambda>j. [real j]) [500..<1000]]"
    using th[THEN conjunct2, THEN conjunct2, THEN conjunct2, THEN conjunct1]
    by (simp only: list.map w0 w1)
  have c: "concat (data_batches ?T) = ramp 1000"
    using th[THEN conjunct2, THEN conjunct2, THEN conjunct2, THEN conjunct2, THEN conjunct1]
    by (simp only: tk)
  have l: "length (generated_batches ?T) = 2"
    using th[THEN conjunct2, THEN conjunct1] .
  have a: "list_all (\<lambda>gen. length gen = 500) (generated_batches ?T)"
    using th[THEN conjunct2, THEN conjunct2, THEN conjunct1] .
  from l obtain g0 g1 where g: "generated_batches ?T = [g0, g1]"
    by (auto simp: length_Suc_conv numeral_2_eq_2)
  have gl: "length g0 = 500" "length g1 = 500" using a unfolding g by simp_all
  have "dis_batches ?T =
      [(map ((!) (ramp 1200)) [0 * 500..<(0 + 1) * 500] @ g0, replicate 500 1 @ replicate 500 0),
       (map ((!) (ramp 1200)) [1 * 500..<(1 + 1) * 500] @ g1, replicate 500 1 @ replicate 500 0)]"
    using th[THEN conjunct1] unfolding g by (simp only: zip_Cons_Cons zip_Nil list.map prod.case)
  then have b: "map fst (dis_batches ?T) =
        [map (\<lambda>j. [real j]) [0..<500] @ g0, map (\<lambda>j. [real j]) [500..<1000] @ g1]"
    by (simp only: list.map fst_conv w0 w1)
  have t: "drop 1000 (ramp 1200) = map (\<lambda>j. [real j]) [1000..<1200]"
    by (rule drop_ramp)
  have tl: "length (drop 1000 (ramp 1200)) = 200" by (simp add: length_ramp)
  have i: "[999] \<in> set (concat (data_batches ?T))"
    unfolding c set_ramp by (rule exI[of _ 999]) simp
  have o1: "[1000] \<notin> set (concat (data_batches ?T))" unfolding c set_ramp by auto
  have o2: "[1199] \<notin> set (concat (data_batches ?T))" unfolding c set_ramp by auto
  from gl b have "length g0 = 500 \<and> length g1 = 500 \<and>
      map fst (dis_batches ?T) =
        [map (\<lambda>j. [real j]) [0..<500] @ g0, map (\<lambda>j. [real j]) [500..<1000] @ g1]"
    by (intro conjI)
  then have e: "\<exists>g0 g1. length g0 = 500 \<and> length g1 = 500 \<and>
      map fst (dis_batches ?T) =
        [map (\<lambda>j. [real j]) [0..<500] @ g0, map (\<lambda>j. [real j]) [500..<1000] @ g1]"
    by - (rule exI[of _ g0], rule exI[of _ g1], assumption)
  show ?thesis
    by (intro conjI) (fact m q d e c t tl i o1 o2)+
qed

text \<open>A run evaluated: three rows of one feature, \<open>stop_epochs = 1\<close>.\<close>

lemma fit_trace_example:
  "fit_trace K0 [[1], [2], [3]] None (frame0 1) =
     [Set_n_classes None, Print_epoch 1 3, Print_testing 1 1,
      Generator_predict [[0], [0], [0]] [[0], [0], [0]],
      Discriminator_train [[1], [2], [3], [0], [0], [0]] [1, 1, 1, 0, 0, 0],
      Combine_train [[0], [0], [0]] [1, 1, 1],
      Discriminator_predict [[1], [2], [3]], Process_decision_scores]"
  by (simp add: fit_trace_def fit_def K0_def frame0_def set_n_classes_def emit_def
      SO_GAAL_init_def model_compile_def create_generator_def create_discriminator_def
      epoch_body_def batch_body_def Let_def np_random_uniform_def getattr_def slice_def
      generator_predict_def discriminator_train_on_batch_def history_append_def
      train_generator_def combine_model_train_on_batch_def combine_model_evaluate_def
      process_decision_scores_def discriminator_predict_def check_array_def upto.simps)

text \<open>
  C7. Every batch given to the discriminator's training step in a run of \<open>fit\<close> is
  the real rows of its window followed by the rows the generator returned for
  that batch, with the labels \<open>1\<close> repeated \<open>batch_size\<close> times followed by \<open>0\<close>
  repeated \<open>batch_size\<close> times. The batch has \<open>2 * batch_size\<close> rows and as many
  labels, \<open>batch_size\<close> of them 1 and \<open>batch_size\<close> of them 0; each generated batch
  has \<open>batch_size\<close> rows.
\<close>

theorem fit_discriminator_batches:
  "dis_batches (fit_trace K X y f) =
     map (\<lambda>(i, gen). (slice X (i * min 500 (length X)) ((i + 1) * min 500 (length X)) @ gen,
                       replicate (min 500 (length X)) 1 @ replicate (min 500 (length X)) 0))
       (zip [0..<length X div min 500 (length X)] (generated_batches (fit_trace K X y f))) \<and>
   list_all (\<lambda>gen. length gen = min 500 (length X)) (generated_batches (fit_trace K X y f)) \<and>
   list_all (\<lambda>(x, y). length x = 2 * min 500 (length X) \<and> length y = 2 * min 500 (length X) \<and>
               y = replicate (min 500 (length X)) 1 @ replicate (min 500 (length X)) 0 \<and>
               count_list y 1 = min 500 (length X) \<and> count_list y 0 = min 500 (length X))
     (dis_batches (fit_trace K X y f))"
proof -
  let ?bs = "min 500 (length X)"
  let ?js = "[0..<length X div ?bs]"
  let ?T = "fit_trace K X y f"
  from fit_trace_cases[of X f K y]
  show ?thesis
  proof (elim disjE conjE exE)
    fix evs
    assume t: "?T = [Set_n_classes y, Print_epoch 1 (stop_epochs (self f) * 3)] @ evs @
               [Discriminator_predict X, Process_decision_scores]"
      and bt: "batch_trace X ?bs 0 False ?js evs"
    have db: "dis_batches ?T = dis_batches evs"
      unfolding t projections_append by (simp add: projections_simps)
    have gb: "generated_batches ?T = generated_batches evs"
      unfolding t projections_append by (simp add: projections_simps)
    have 1: "list_all (\<lambda>gen. length gen = ?bs) (generated_batches evs)"
      using batch_trace_generated[OF bt] by (simp add: list_all_iff)
    show ?thesis
      unfolding db gb
      using batch_trace_dis_batches[OF bt] 1 batch_trace_shapes[OF bt windows_in_range]
      by blast
  next
    assume "?T = [Set_n_classes y]"
    then show ?thesis by (simp add: projections_simps)
  next
    assume "?T = []"
    then show ?thesis by (simp add: projections_simps)
  qed
qed

theorem fit_discriminator_batches_witness:
  "dis_batches (fit_trace K0 [[1], [2], [3]] None (frame0 1)) =
     [([[1], [2], [3], [0], [0], [0]], [1, 1, 1, 0, 0, 0])]"
proof -
  have g: "generated_batches (fit_trace K0 [[1], [2], [3]] None (frame0 1)) = [[[0], [0], [0]]]"
    unfolding fit_trace_example by (simp add: generated_batches_def)
  have l: "length [[1::real], [2], [3]] = 3" by simp
  have m: "min 500 (3::nat) = 3" by simp
  have d: "(3::nat) div 3 = 1" by simp
  have u: "[0..<1::nat] = [0]" by (simp add: upt_conv_Cons)
  have r1: "replicate 3 (1::int) = [1, 1, 1]" by (simp add: numeral_3_eq_3)
  have r0: "replicate 3 (0::int) = [0, 0, 0]" by (simp add: numeral_3_eq_3)
  have sl: "slice [[1::real], [2], [3]] (0 * 3) ((0 + 1) * 3) = [[1], [2], [3]]"
    by (simp add: slice_def)
  note th = fit_discriminator_batches[of K0 "[[1], [2], [3]]" None "frame0 1",
      THEN conjunct1, unfolded g l m d u r1 r0]
  show ?thesis using th sl by simp
qed

text \<open>
  C9. In a run of \<open>fit\<close> on a valid \<open>X\<close> with \<open>stop_epochs\<close> at least 1, every
  generator phase is a training step on the combined model; none is the
  evaluation of the \<open>stop == 1\<close> branch. There is one per batch, and \<open>stop\<close> is still
  0 when \<open>fit\<close> returns.
\<close>

theorem fit_generator_never_frozen:
  assumes v: "check_array X = Inr X" and se: "1 \<le> stop_epochs (self f)"
  shows "generator_steps (fit_trace K X y f) =
           replicate (length X div min 500 (length X)) True \<and>
         length (dis_batches (fit_trace K X y f)) = length X div min 500 (length X) \<and>
         False \<notin> set (generator_steps (fit_trace K X y f)) \<and>
         stop (frame_of (fit K X y f)) = 0"
proof -
  let ?bs = "min 500 (length X)"
  let ?js = "[0..<length X div ?bs]"
  let ?T = "fit_trace K X y f"
  from fit_trace_run[OF v se, of K y]
  obtain evs where
    t: "?T = [Set_n_classes y, Print_epoch 1 (stop_epochs (self f) * 3)] @ evs @
               [Discriminator_predict X, Process_decision_scores]" and
    bt: "batch_trace X ?bs 0 False ?js evs"
    by blast
  have gs: "generator_steps ?T = replicate (length X div ?bs) True"
    unfolding t projections_append
    using batch_trace_generator_steps[OF bt] by (simp add: projections_simps)
  have "dis_batches ?T = dis_batches evs"
    unfolding t projections_append by (simp add: projections_simps)
  then have db: "length (dis_batches ?T) = length X div ?bs"
    using batch_trace_dis_batches[OF bt] batch_trace_generated[OF bt] by simp
  from fit_run[OF v se, of K y]
  have st: "stop (frame_of (fit K X y f)) = 0" by auto
  show ?thesis using gs db st by simp
qed

theorem fit_generator_never_frozen_witness:
  "check_array (replicate 1200 [0]) = Inr (replicate 1200 [0]) \<and>
   1 \<le> stop_epochs (self (frame0 20)) \<and>
   generator_steps (fit_trace K0 (replicate 1200 [0]) None (frame0 20)) = [True, True] \<and>
   stop (frame_of (fit K0 (replicate 1200 [0]) None (frame0 20))) = 0"
proof -
  have v: "check_array (replicate 1200 [0]) = Inr (replicate 1200 [0])"
    by (rule valid_replicate) simp
  have se: "1 \<le> stop_epochs (self (frame0 20))" by (simp add: stop_epochs_frame0)
  have q: "length (replicate 1200 [0::real]) div min 500 (length (replicate 1200 [0::real])) = 2"
    by simp
  have r2: "replicate 2 True = [True, True]"
    by (simp add: numeral_2_eq_2)
  note th = fit_generator_never_frozen[OF v se, of K0 None, unfolded q r2]
  show ?thesis using v se th by blast
qed

text \<open>
  C10. When \<open>stop_epochs\<close> is zero or negative, \<open>epochs = stop_epochs * 3\<close> is not
  positive and the epoch loop has nothing to run: \<open>fit\<close> trains no batch, prints no
  epoch, leaves \<open>decision_scores_\<close> as it was, and never returns \<open>self\<close>. On an \<open>X\<close>
  that passes validation it returns \<open>None\<close>, after the class hook alone.
\<close>

theorem fit_nonpositive_stop_epochs:
  assumes se: "stop_epochs (self f) \<le> 0"
  shows "(check_array X = Inr X \<longrightarrow>
            (\<exists>f'. fit K X y f = Return PyNone f') \<and> fit_trace K X y f = [Set_n_classes y]) \<and>
         dis_batches (fit_trace K X y f) = [] \<and>
         generator_steps (fit_trace K X y f) = [] \<and>
         batches_printed (fit_trace K X y f) = [] \<and>
         epochs_printed (fit_trace K X y f) = [] \<and>
         decision_scores (self (frame_of (fit K X y f))) = decision_scores (self f) \<and>
         (\<forall>f'. fit K X y f \<noteq> Return Self f')"
proof (cases "check_array X = Inr X")
  case v: True
  from fit_no_epochs[OF v se, of K y]
  obtain f' where r: "fit K X y f = Return PyNone f'" and
    d: "decision_scores (self f') = decision_scores (self f)"
    by blast
  have t: "fit_trace K X y f = [Set_n_classes y]"
    by (rule fit_trace_no_epochs[OF v se])
  show ?thesis using r d by (simp add: t projections_simps)
next
  case False
  then have i: "check_array X = Inl ValueError" using check_array_cases[of X] by simp
  have r: "fit K X y f = Raise ValueError f" by (rule fit_invalid[OF i])
  have t: "fit_trace K X y f = []" by (rule fit_trace_invalid[OF i])
  show ?thesis using False r by (simp add: t projections_simps)
qed

theorem fit_nonpositive_stop_epochs_witness:
  "stop_epochs (self (frame0 0)) \<le> 0 \<and>
   fit_trace K0 [[1], [2], [3]] None (frame0 0) = [Set_n_classes None] \<and>
   (\<exists>f'. fit K0 [[1], [2], [3]] None (frame0 0) = Return PyNone f') \<and>
   decision_scores (self (frame_of (fit K0 [[1], [2], [3]] None (frame0 0)))) = None"
proof -
  have se: "stop_epochs (self (frame0 0)) \<le> 0" by (simp add: stop_epochs_frame0)
  from fit_nonpositive_stop_epochs[OF se, of "[[1], [2], [3]]" K0 None]
  show ?thesis using se valid3 by (simp add: frame0_def SO_GAAL_init_def)
qed

lemma fit_outcomes:
  "(check_array X = Inl ValueError \<and> fit K X y f = Raise ValueError f) \<or>
   (check_array X = Inr X \<and>
      (\<exists>r f'. fit K X y f = Return r f' \<and> discriminator (self f') \<noteq> None))"
proof (cases "check_array X = Inr X")
  case v: True
  show ?thesis
  proof (cases "1 \<le> stop_epochs (self f)")
    case True
    from fit_run[OF v True, of K y] v show ?thesis by fastforce
  next
    case False
    then have "stop_epochs (self f) \<le> 0" by simp
    from fit_no_epochs[OF v this, of K y] v show ?thesis by blast
  qed
next
  case False
  then have i: "check_array X = Inl ValueError" using check_array_cases[of X] by simp
  from fit_invalid[OF i, of K y f] i show ?thesis by blast
qed

text \<open>
  C8. \<open>decision_function\<close> on an instance whose \<open>discriminator\<close> attribute was
  never assigned raises the not-fitted error, whatever \<open>X\<close> is, valid or not: the
  check comes before the validation of \<open>X\<close>. This is the state of a fresh instance,
  and a \<open>fit\<close> that raises leaves the instance as it was. After a \<open>fit\<close> that
  returns, \<open>decision_function\<close> does not raise the not-fitted error.
\<close>

theorem decision_function_not_fitted:
  "decision_function K (SO_GAAL_init se a b c d e) X = Inl NotFittedError \<and>
   (discriminator s = None \<longrightarrow> decision_function K s X = Inl NotFittedError) \<and>
   (discriminator s \<noteq> None \<longrightarrow> decision_function K s X \<noteq> Inl NotFittedError) \<and>
   (\<forall>err f'. fit K X' y f = Raise err f' \<longrightarrow> f' = f) \<and>
   (\<forall>r f'. fit K X' y f = Return r f' \<longrightarrow>
      decision_function K (self f') X \<noteq> Inl NotFittedError)"
proof -
  have 1: "decision_function K (SO_GAAL_init se a b c d e) X = Inl NotFittedError"
    by (simp add: decision_function_def check_is_fitted_def SO_GAAL_init_def)
  have 2: "discriminator s = None \<longrightarrow> decision_function K s X = Inl NotFittedError"
    by (simp add: decision_function_def check_is_fitted_def)
  have 3: "discriminator s' \<noteq> None \<longrightarrow> decision_function K s' X \<noteq> Inl NotFittedError" for s'
    using check_array_cases[of X]
    by (auto simp: decision_function_def check_is_fitted_def)
  have 4: "\<forall>err f'. fit K X' y f = Raise err f' \<longrightarrow> f' = f"
    using fit_outcomes[of X' K y f] by auto
  have 5: "\<forall>r f'. fit K X' y f = Return r f' \<longrightarrow>
      decision_function K (self f') X \<noteq> Inl NotFittedError"
    using fit_outcomes[of X' K y f] 3 by auto
  show ?thesis using 1 2 3 4 5 by blast
qed

theorem decision_function_not_fitted_witness:
  "decision_function K0 (self (frame0 20)) [[1], [2], [3]] = Inl NotFittedError \<and>
   decision_function K0 (self (frame0 20)) [] = Inl NotFittedError \<and>
   fit K0 [] None (frame0 20) = Raise ValueError (frame0 20) \<and>
   decision_function K0 (self (frame_of (fit K0 [] None (frame0 20)))) [[1], [2], [3]] =
     Inl NotFittedError \<and>
   decision_function K0 (self (frame_of (fit K0 [[1], [2], [3]] None (frame0 20))))
     [[1], [2], [3]] \<noteq> Inl NotFittedError"
proof -
  have n: "discriminator (self (frame0 20)) = None"
    by (simp add: frame0_def SO_GAAL_init_def)
  have i: "fit K0 [] None (frame0 20) = Raise ValueError (frame0 20)"
    by (rule fit_invalid) (simp add: check_array_def)
  have se: "1 \<le> stop_epochs (self (frame0 20))" by (simp add: stop_epochs_frame0)
  from fit_run[OF valid3 se, of K0 None]
  obtain f' where r: "fit K0 [[1], [2], [3]] None (frame0 20) = Return Self f'" by blast
  note a = decision_function_not_fitted[of K0 _ _ _ _ _ _ "[[1], [2], [3]]" "self (frame0 20)"
      "[[1], [2], [3]]" None "frame0 20"]
  note b = decision_function_not_fitted[of K0 _ _ _ _ _ _ "[]" "self (frame0 20)"]
  have 1: "decision_function K0 (self (frame0 20)) [[1], [2], [3]] = Inl NotFittedError"
    using a n by blast
  have 2: "decision_function K0 (self (frame0 20)) [] = Inl NotFittedError"
    using b n by blast
  have 3: "decision_function K0 (self f') [[1], [2], [3]] \<noteq> Inl NotFittedError"
    using a r by blast
  show ?thesis using 1 2 3 i r by simp
qed





end
